theory Spec2Isabelle
  imports Complex_Main "HOL-Library.Char_ord" "HOL-Library.List_Lexorder"
begin

section \<open>Values\<close>

text \<open>
  A cell of a float64 column, or a Python float: a number or one of the three IEEE
  specials. Finite values are exact rationals: rounding, overflow and the sign of zero
  are left out. A Python int used in float arithmetic is the \<open>Finite\<close> value of the same
  magnitude.
\<close>

datatype pyfloat = Finite rat | PosInf | NegInf | NaN

text \<open>
  IEEE multiplication, as \<open>column * surface\<close> performs it cell by cell, up to the
  rounding of the product: a float64 product may differ from the exact one in its last
  bit, and an all-integer column is multiplied as int64.
\<close>

fun float_mul :: "pyfloat \<Rightarrow> pyfloat \<Rightarrow> pyfloat" where
  "float_mul NaN _ = NaN"
| "float_mul _ NaN = NaN"
| "float_mul (Finite a) (Finite b) = Finite (a * b)"
| "float_mul (Finite a) PosInf = (if 0 < a then PosInf else if a < 0 then NegInf else NaN)"
| "float_mul (Finite a) NegInf = (if 0 < a then NegInf else if a < 0 then PosInf else NaN)"
| "float_mul PosInf (Finite b) = (if 0 < b then PosInf else if b < 0 then NegInf else NaN)"
| "float_mul NegInf (Finite b) = (if 0 < b then NegInf else if b < 0 then PosInf else NaN)"
| "float_mul PosInf PosInf = PosInf"
| "float_mul PosInf NegInf = NegInf"
| "float_mul NegInf PosInf = NegInf"
| "float_mul NegInf NegInf = PosInf"

text \<open>IEEE \<open><=\<close>: every comparison with NaN is false.\<close>

fun float_le :: "pyfloat \<Rightarrow> pyfloat \<Rightarrow> bool" where
  "float_le NaN _ = False"
| "float_le _ NaN = False"
| "float_le NegInf _ = True"
| "float_le _ PosInf = True"
| "float_le (Finite a) (Finite b) = (a \<le> b)"
| "float_le (Finite a) NegInf = False"
| "float_le PosInf _ = False"

text \<open>
  A value decoded by \<open>json.loads\<close>. Python's \<open>None\<close> is \<open>JNull\<close>; a number is a
  \<open>pyfloat\<close> (the decoder accepts the literals NaN and Infinity); a dict is the list of
  its items in insertion order, its keys distinct.
\<close>

datatype json =
    JNull
  | JBool bool
  | JNum pyfloat
  | JStr string
  | JArr "json list"
  | JObj "(string \<times> json) list"

datatype exception = TypeError | IndexError | KeyError

section \<open>The dataset\<close>

text \<open>
  The text of a \<open>geo_shape\<close> cell, given by what \<open>json.loads\<close> makes of it: a
  \<open>JSONDecodeError\<close> or a decoded value.
\<close>

datatype json_text = JSONDecodeError | Decoded json

text \<open>
  One row of the frame that \<open>pd.read_csv\<close> returns, with the columns the program reads
  under the headers of the file. The three rent cells hold their text (a missing cell
  is the empty text); \<open>None\<close> is a missing cell. The year and the number of rooms are
  integer columns, the era and the type of rental are filled in every row.
\<close>

record csv_row =
  Annee :: int
  Nom_du_quartier :: "string option"
  Nombre_de_pieces_principales :: int
  Epoque_de_construction :: string
  Type_de_location :: string
  Loyers_de_reference :: string
  Loyers_de_reference_majores :: string
  Loyers_de_reference_minores :: string
  geo_shape :: "json_text option"

text \<open>
  One row of the frame that \<open>load_data\<close> returns, under the names the program gives to
  the columns.
\<close>

record row =
  annee :: int
  nom_quartier :: string
  nb_pieces :: int
  epoque_construction :: string
  type_location :: string
  loyer_ref :: pyfloat
  loyer_majore :: pyfloat
  loyer_minore :: pyfloat
  geo_points :: json

text \<open>
  What \<open>requests.get\<close>, \<open>raise_for_status\<close> and \<open>pd.read_csv\<close> produce: a
  \<open>RequestException\<close>, any other exception of the \<open>try\<close> block, or the frame of
  the file. A body without content is \<open>OtherException\<close>: \<open>pd.read_csv\<close> raises
  EmptyDataError on it. A file with its header and no rows is \<open>Csv []\<close>.
\<close>

datatype fetched =
    RequestException
  | OtherException
  | Csv "csv_row list"

datatype message =
    Warning_no_data_2025
  | Error_request
  | Error_unexpected
  | Warning_no_match
  | Error_not_loaded

section \<open>load_data\<close>

text \<open>\<open>.str.replace(',', '.')\<close> on one cell.\<close>

definition str_replace_comma :: "string \<Rightarrow> string" where
  "str_replace_comma s = map (\<lambda>c. if c = CHR '','' then CHR ''.'' else c) s"

text \<open>
  \<open>safe_json_load\<close>: the \<open>coordinates\<close> entry of a decoded dict, and \<open>None\<close> when the
  text does not decode (JSONDecodeError), decodes to something that is not a dict
  (TypeError) or to a dict without the key (KeyError).
\<close>

fun safe_json_load :: "json_text \<Rightarrow> json" where
  "safe_json_load JSONDecodeError = JNull"
| "safe_json_load (Decoded (JObj items)) =
     (case map_of items ''coordinates'' of None \<Rightarrow> JNull | Some v \<Rightarrow> v)"
| "safe_json_load (Decoded _) = JNull"

text \<open>What \<open>dropna\<close> takes for a missing value in a float column and in an object column.\<close>

fun isna :: "pyfloat \<Rightarrow> bool" where
  "isna NaN = True"
| "isna _ = False"

fun isna_object :: "json \<Rightarrow> bool" where
  "isna_object JNull = True"
| "isna_object (JNum x) = isna x"
| "isna_object _ = False"

text \<open>
  The cleaning of one row of the year 2025: the three rent cells through
  \<open>pd.to_numeric(..., errors='coerce')\<close> (the parameter \<open>to_numeric\<close>, NaN where the
  text is no number), the first \<open>dropna\<close>, \<open>safe_json_load\<close>, the second \<open>dropna\<close>.
  \<open>None\<close> is a dropped row.
\<close>

definition clean_row :: "(string \<Rightarrow> pyfloat) \<Rightarrow> csv_row \<Rightarrow> row option" where
  "clean_row to_numeric r =
     (let ref = to_numeric (str_replace_comma (Loyers_de_reference r));
          majore = to_numeric (str_replace_comma (Loyers_de_reference_majores r));
          minore = to_numeric (str_replace_comma (Loyers_de_reference_minores r))
      in if isna ref \<or> isna majore \<or> isna minore then None
         else case (geo_shape r, Nom_du_quartier r) of
             (Some x, Some name) \<Rightarrow>
               (let points = safe_json_load x
                in if isna_object points then None
                   else Some \<lparr>annee = Annee r, nom_quartier = name,
                          nb_pieces = Nombre_de_pieces_principales r,
                          epoque_construction = Epoque_de_construction r,
                          type_location = Type_de_location r,
                          loyer_ref = ref, loyer_majore = majore, loyer_minore = minore,
                          geo_points = points\<rparr>)
           | _ \<Rightarrow> None)"

text \<open>\<open>load_data\<close>: the messages it shows and the frame it returns.\<close>

fun load_data :: "(string \<Rightarrow> pyfloat) \<Rightarrow> fetched \<Rightarrow> message list \<times> row list" where
  "load_data to_numeric RequestException = ([Error_request], [])"
| "load_data to_numeric OtherException = ([Error_unexpected], [])"
| "load_data to_numeric (Csv rows) =
     (let df = filter (\<lambda>r. Annee r = 2025) rows
      in if df = [] then ([Warning_no_data_2025], [])
         else ([], List.map_filter (clean_row to_numeric) df))"

section \<open>A reader of decimal numerals\<close>

text \<open>
  An instance of \<open>to_numeric\<close> for running the program on the cells of the samples. It
  is not \<open>pd.to_numeric\<close>: it reads an optional sign, digits, an optional point and
  digits, and the spellings of infinity listed below, on which the two agree. Every
  other text is NaN here, also those that pandas reads as a number (an exponent as in
  1e3, other capitalisations of inf and infinity, blanks around the number). The
  theorems about \<open>load_data\<close> hold for every \<open>to_numeric\<close>; this one serves the samples.
\<close>

definition digit_value :: "char \<Rightarrow> nat option" where
  "digit_value c = map_of
     [(CHR ''0'', 0), (CHR ''1'', 1), (CHR ''2'', 2), (CHR ''3'', 3), (CHR ''4'', 4),
      (CHR ''5'', 5), (CHR ''6'', 6), (CHR ''7'', 7), (CHR ''8'', 8), (CHR ''9'', 9)] c"

fun digits_value :: "nat \<Rightarrow> string \<Rightarrow> nat option" where
  "digits_value acc [] = Some acc"
| "digits_value acc (c # cs) =
     (case digit_value c of None \<Rightarrow> None | Some d \<Rightarrow> digits_value (10 * acc + d) cs)"

definition unsigned_decimal :: "string \<Rightarrow> rat option" where
  "unsigned_decimal s =
     (let whole = takeWhile (\<lambda>c. c \<noteq> CHR ''.'') s;
          fraction = drop 1 (dropWhile (\<lambda>c. c \<noteq> CHR ''.'') s)
      in if whole = [] \<and> fraction = [] then None
         else case (digits_value 0 whole, digits_value 0 fraction) of
             (Some w, Some f) \<Rightarrow> Some (of_nat w + of_nat f / 10 ^ length fraction)
           | _ \<Rightarrow> None)"

definition to_numeric_decimal :: "string \<Rightarrow> pyfloat" where
  "to_numeric_decimal s =
     (if s \<in> {''inf'', ''+inf'', ''Infinity'', ''+Infinity''} then PosInf
      else if s \<in> {''-inf'', ''-Infinity''} then NegInf
      else case s of
          [] \<Rightarrow> NaN
        | c # cs \<Rightarrow>
            if c = CHR ''-'' then (case unsigned_decimal cs of None \<Rightarrow> NaN | Some q \<Rightarrow> Finite (- q))
            else if c = CHR ''+'' then (case unsigned_decimal cs of None \<Rightarrow> NaN | Some q \<Rightarrow> Finite q)
            else (case unsigned_decimal s of None \<Rightarrow> NaN | Some q \<Rightarrow> Finite q))"

section \<open>The criteria of the sidebar\<close>

text \<open>The three options of the select box, in the order of \<open>loyer_options\<close>.\<close>

datatype loyer_option =
    Loyers_de_reference_majores_option
  | Loyers_de_reference_option
  | Loyers_de_reference_minores_option

text \<open>
  The values of the widgets. \<open>budget\<close> and \<open>surface\<close> are Python ints: their
  \<open>number_input\<close> is given int bounds, value and step.
\<close>

record criteria =
  budget :: int
  surface :: int
  type_loc :: string
  epoque_selection :: "string list"
  loyer_a_utiliser :: loyer_option

text \<open>\<open>col_loyer_map\<close>: from the option to the column, a column being its selector.\<close>

fun col_loyer_map :: "loyer_option \<Rightarrow> ('a row_scheme \<Rightarrow> pyfloat)" where
  "col_loyer_map Loyers_de_reference_majores_option = loyer_majore"
| "col_loyer_map Loyers_de_reference_option = loyer_ref"
| "col_loyer_map Loyers_de_reference_minores_option = loyer_minore"

section \<open>Filtering and estimation\<close>

definition df_filtered :: "criteria \<Rightarrow> row list \<Rightarrow> row list" where
  "df_filtered c data =
     filter (\<lambda>r. type_location r = type_loc c \<and> epoque_construction r \<in> set (epoque_selection c)) data"

text \<open>The frame with its two new columns.\<close>

record est_row = row +
  loyer_estime :: pyfloat
  dans_le_budget :: bool

definition estimate :: "criteria \<Rightarrow> row \<Rightarrow> est_row" where
  "estimate c r =
     (let e = float_mul (col_loyer_map (loyer_a_utiliser c) r) (Finite (of_int (surface c)))
      in row.extend r \<lparr>loyer_estime = e, dans_le_budget = float_le e (Finite (of_int (budget c)))\<rparr>)"

definition with_loyer_estime :: "criteria \<Rightarrow> row list \<Rightarrow> est_row list" where
  "with_loyer_estime c df = map (estimate c) df"

section \<open>Aggregation by quartier\<close>

text \<open>
  \<open>groupby('nom_quartier')\<close>: the groups in ascending order of their key, each with
  its rows in the order of the frame.
\<close>

definition groupby_nom_quartier :: "est_row list \<Rightarrow> (string \<times> est_row list) list" where
  "groupby_nom_quartier df =
     map (\<lambda>name. (name, filter (\<lambda>r. nom_quartier r = name) df))
       (sort (remdups (map nom_quartier df)))"

text \<open>
  \<open>sort_values(['nb_pieces', 'loyer_estime'])\<close>: ascending by the first column, then by
  the second, NaN last, rows with equal keys in their order of the frame.
\<close>

fun na_last_le :: "pyfloat \<Rightarrow> pyfloat \<Rightarrow> bool" where
  "na_last_le _ NaN = True"
| "na_last_le NaN _ = False"
| "na_last_le a b = float_le a b"

definition sort_le :: "est_row \<Rightarrow> est_row \<Rightarrow> bool" where
  "sort_le a b =
     (nb_pieces a < nb_pieces b \<or>
      (nb_pieces a = nb_pieces b \<and> na_last_le (loyer_estime a) (loyer_estime b)))"

fun insert_row :: "est_row \<Rightarrow> est_row list \<Rightarrow> est_row list" where
  "insert_row x [] = [x]"
| "insert_row x (y # ys) = (if sort_le x y then x # y # ys else y # insert_row x ys)"

definition sort_values :: "est_row list \<Rightarrow> est_row list" where
  "sort_values grp = foldr insert_row grp []"

text \<open>
  One line of the popup: the values that \<open>line_content\<close> prints, \<open>check_icon\<close> true for
  the check mark. The popup is the list of its lines, after the name of the quartier.
\<close>

record line =
  line_nb_pieces :: int
  line_epoque_construction :: string
  line_loyer_m2 :: pyfloat
  line_loyer_estime :: pyfloat
  check_icon :: bool

definition line_content :: "criteria \<Rightarrow> est_row \<Rightarrow> line" where
  "line_content c r =
     \<lparr>line_nb_pieces = nb_pieces r, line_epoque_construction = epoque_construction r,
      line_loyer_m2 = col_loyer_map (loyer_a_utiliser c) r,
      line_loyer_estime = loyer_estime r, check_icon = dans_le_budget r\<rparr>"

text \<open>A value of the dict \<open>quartiers_info\<close>.\<close>

record info =
  accessible :: bool
  tooltip :: "line list"
  info_geo_points :: json

text \<open>
  The loop over the groups. \<open>group.iloc[0]\<close> raises IndexError on an empty group. The
  dict is the list of its items in insertion order: the keys of the groups are distinct.
\<close>

fun quartiers_loop :: "criteria \<Rightarrow> (string \<times> est_row list) list \<Rightarrow> exception + (string \<times> info) list" where
  "quartiers_loop c [] = Inr []"
| "quartiers_loop c ((name, grp) # groups) =
     (case grp of
        [] \<Rightarrow> Inl IndexError
      | first # _ \<Rightarrow>
          (case quartiers_loop c groups of
             Inl e \<Rightarrow> Inl e
           | Inr infos \<Rightarrow>
               Inr ((name, \<lparr>accessible = list_ex dans_le_budget grp,
                             tooltip = map (line_content c) (sort_values grp),
                             info_geo_points = geo_points first\<rparr>) # infos)))"

definition quartiers_info :: "criteria \<Rightarrow> row list \<Rightarrow> exception + (string \<times> info) list" where
  "quartiers_info c df = quartiers_loop c (groupby_nom_quartier (with_loyer_estime c df))"

section \<open>The map\<close>

text \<open>\<open>x[i]\<close> for \<open>i\<close> 0 or 1, and \<open>iter(x)\<close>, on a decoded value.\<close>

fun subscript :: "json \<Rightarrow> nat \<Rightarrow> exception + json" where
  "subscript (JArr xs) i = (if i < length xs then Inr (xs ! i) else Inl IndexError)"
| "subscript (JStr s) i = (if i < length s then Inr (JStr [s ! i]) else Inl IndexError)"
| "subscript (JObj items) i = Inl KeyError"
| "subscript _ i = Inl TypeError"

fun iterate :: "json \<Rightarrow> exception + json list" where
  "iterate (JArr xs) = Inr xs"
| "iterate (JStr s) = Inr (map (\<lambda>ch. JStr [ch]) s)"
| "iterate (JObj items) = Inr (map (\<lambda>(k, v). JStr k) items)"
| "iterate _ = Inl TypeError"

text \<open>\<open>[[point[1], point[0]] for point in ...]\<close>: the first exception ends the comprehension.\<close>

fun invert_points :: "json list \<Rightarrow> exception + (json \<times> json) list" where
  "invert_points [] = Inr []"
| "invert_points (point # rest) =
     (case subscript point 1 of
        Inl e \<Rightarrow> Inl e
      | Inr lat \<Rightarrow>
          (case subscript point 0 of
             Inl e \<Rightarrow> Inl e
           | Inr lon \<Rightarrow>
               (case invert_points rest of
                  Inl e \<Rightarrow> Inl e
                | Inr inverted \<Rightarrow> Inr ((lat, lon) # inverted))))"

definition points_inverted :: "json \<Rightarrow> exception + (json \<times> json) list" where
  "points_inverted g =
     (case subscript g 0 of
        Inl e \<Rightarrow> Inl e
      | Inr ring \<Rightarrow> (case iterate ring of Inl e \<Rightarrow> Inl e | Inr pts \<Rightarrow> invert_points pts))"

datatype colour = Green | Red

record polygon =
  locations :: "(json \<times> json) list"
  color :: colour
  polygon_tooltip :: string
  popup :: "line list"

text \<open>
  The loop that draws the quartiers: the comprehension, and
  \<open>except (TypeError, IndexError): pass\<close>, which skips the quartier; any other
  exception leaves the loop. Only the exceptions of the comprehension are modelled.
  \<open>folium.Polygon\<close> checks its locations and raises ValueError, which the clause
  does not catch, for an empty list and for values that are no numbers: on such
  locations the program stops where this function adds a polygon.
\<close>

fun add_polygons :: "(string \<times> info) list \<Rightarrow> exception + polygon list" where
  "add_polygons [] = Inr []"
| "add_polygons ((quartier, i) # rest) =
     (case points_inverted (info_geo_points i) of
        Inl e \<Rightarrow> (if e = TypeError \<or> e = IndexError then add_polygons rest else Inl e)
      | Inr pts \<Rightarrow>
          (case add_polygons rest of
             Inl e \<Rightarrow> Inl e
           | Inr m \<Rightarrow>
               Inr (\<lparr>locations = pts, color = (if accessible i then Green else Red),
                     polygon_tooltip = quartier, popup = tooltip i\<rparr> # m)))"

section \<open>The script\<close>

text \<open>What one run shows: the messages, the dict of the quartiers and the polygons of the map.\<close>

record page =
  messages :: "message list"
  infos :: "(string \<times> info) list"
  carte :: "polygon list"

definition script :: "(string \<Rightarrow> pyfloat) \<Rightarrow> fetched \<Rightarrow> criteria \<Rightarrow> exception + page" where
  "script to_numeric input c =
     (case load_data to_numeric input of
        (shown, data) \<Rightarrow>
          if data = [] then Inr \<lparr>messages = shown @ [Error_not_loaded], infos = [], carte = []\<rparr>
          else if df_filtered c data = []
          then Inr \<lparr>messages = shown @ [Warning_no_match], infos = [], carte = []\<rparr>
          else (case quartiers_info c (df_filtered c data) of
                  Inl e \<Rightarrow> Inl e
                | Inr qi \<Rightarrow>
                    (case add_polygons qi of
                       Inl e \<Rightarrow> Inl e
                     | Inr m \<Rightarrow> Inr \<lparr>messages = shown, infos = qi, carte = m\<rparr>)))"

section \<open>Sample inputs\<close>

text \<open>A triangle as the \<open>coordinates\<close> of a GeoJSON Polygon: one ring of [longitude, latitude] pairs.\<close>

definition sample_coordinates :: json where
  "sample_coordinates =
     JArr [JArr [JArr [JNum (Finite 2), JNum (Finite 48)],
                 JArr [JNum (Finite 3), JNum (Finite 48)],
                 JArr [JNum (Finite 3), JNum (Finite 49)]]]"

definition sample_csv_row :: csv_row where
  "sample_csv_row =
     \<lparr>Annee = 2025, Nom_du_quartier = Some ''Odeon'', Nombre_de_pieces_principales = 2,
      Epoque_de_construction = ''1946-1970'', Type_de_location = ''meuble'',
      Loyers_de_reference = ''30,5'', Loyers_de_reference_majores = ''40'',
      Loyers_de_reference_minores = ''20.1'',
      geo_shape = Some (Decoded (JObj [(''type'', JStr ''Polygon''),
                                        (''coordinates'', sample_coordinates)]))\<rparr>"

text \<open>The row that \<open>load_data\<close> makes of \<open>sample_csv_row\<close>.\<close>

definition sample_row :: row where
  "sample_row =
     \<lparr>annee = 2025, nom_quartier = ''Odeon'', nb_pieces = 2,
      epoque_construction = ''1946-1970'', type_location = ''meuble'',
      loyer_ref = Finite (61 / 2), loyer_majore = Finite 40, loyer_minore = Finite (201 / 10),
      geo_points = sample_coordinates\<rparr>"

text \<open>The defaults of the sidebar: 1500 euros, 30 square metres, the raised reference rent.\<close>

definition sample_criteria :: criteria where
  "sample_criteria =
     \<lparr>budget = 1500, surface = 30, type_loc = ''meuble'', epoque_selection = [''1946-1970''],
      loyer_a_utiliser = Loyers_de_reference_majores_option\<rparr>"

section \<open>Facts about the stages\<close>

subsection \<open>The estimate\<close>

lemma estimate_fields [simp]:
  "nom_quartier (estimate c r) = nom_quartier r"
  "nb_pieces (estimate c r) = nb_pieces r"
  "epoque_construction (estimate c r) = epoque_construction r"
  "type_location (estimate c r) = type_location r"
  "loyer_ref (estimate c r) = loyer_ref r"
  "loyer_majore (estimate c r) = loyer_majore r"
  "loyer_minore (estimate c r) = loyer_minore r"
  "geo_points (estimate c r) = geo_points r"
  by (simp_all add: estimate_def row.extend_def Let_def)

lemma col_loyer_map_estimate [simp]:
  "col_loyer_map t (estimate c r) = col_loyer_map t r"
  by (cases t) simp_all

lemma loyer_estime_estimate:
  "loyer_estime (estimate c r) =
     float_mul (col_loyer_map (loyer_a_utiliser c) r) (Finite (of_int (surface c)))"
  by (simp add: estimate_def row.extend_def Let_def)

lemma dans_le_budget_estimate:
  "dans_le_budget (estimate c r) =
     float_le (loyer_estime (estimate c r)) (Finite (of_int (budget c)))"
  by (simp add: estimate_def row.extend_def Let_def)

lemma float_mul_not_na: "\<not> isna x \<Longrightarrow> s \<noteq> 0 \<Longrightarrow> \<not> isna (float_mul x (Finite s))"
  by (cases x) auto

subsection \<open>The frame of load_data\<close>

lemma clean_row_not_na:
  assumes "clean_row to_numeric r = Some x"
  shows "\<not> isna (loyer_ref x)" "\<not> isna (loyer_majore x)" "\<not> isna (loyer_minore x)"
    "\<not> isna_object (geo_points x)"
  using assms
  by (auto simp: clean_row_def Let_def split: if_splits option.splits)

lemma load_data_frame:
  "snd (load_data to_numeric (Csv rows)) =
     List.map_filter (clean_row to_numeric) (filter (\<lambda>r. Annee r = 2025) rows)"
  by (auto simp: Let_def List.map_filter_def filter_empty_conv)

lemma in_load_data_frame:
  "x \<in> set (snd (load_data to_numeric input)) \<Longrightarrow>
     \<exists>rows r. input = Csv rows \<and> r \<in> set rows \<and> Annee r = 2025 \<and> clean_row to_numeric r = Some x"
  by (cases input) (auto simp: Let_def List.map_filter_def split: if_splits)

lemma map_filter_filter:
  "(\<And>x. x \<in> set xs \<Longrightarrow> \<not> P x \<Longrightarrow> f x = None) \<Longrightarrow>
     List.map_filter f (filter P xs) = List.map_filter f xs"
  by (induction xs) (auto simp: List.map_filter_def)

subsection \<open>The order of sort_values\<close>

lemma na_last_le_total: "na_last_le a b \<or> na_last_le b a"
  by (cases a; cases b) auto

lemma na_last_le_trans: "na_last_le a b \<Longrightarrow> na_last_le b d \<Longrightarrow> na_last_le a d"
  by (cases a; cases b; cases d) auto

lemma na_last_le_float_le: "\<not> isna a \<Longrightarrow> \<not> isna b \<Longrightarrow> na_last_le a b = float_le a b"
  by (cases a; cases b) auto

lemma sort_le_total: "sort_le a b \<or> sort_le b a"
  using na_last_le_total [of "loyer_estime a" "loyer_estime b"]
  by (auto simp: sort_le_def)

lemma sort_le_trans: "sort_le a b \<Longrightarrow> sort_le b d \<Longrightarrow> sort_le a d"
  by (auto simp: sort_le_def dest: na_last_le_trans)

lemma set_insert_row [simp]: "set (insert_row x xs) = insert x (set xs)"
  by (induction xs) auto

lemma sorted_insert_row:
  "sorted_wrt sort_le xs \<Longrightarrow> sorted_wrt sort_le (insert_row x xs)"
proof (induction xs)
  case Nil
  show ?case by simp
next
  case (Cons y ys)
  show ?case
  proof (cases "sort_le x y")
    case True
    then have "\<forall>z \<in> set ys. sort_le x z"
      using Cons.prems by (auto intro: sort_le_trans)
    with True Cons.prems show ?thesis by simp
  next
    case False
    then have "sort_le y x" using sort_le_total [of x y] by simp
    with False Cons show ?thesis by auto
  qed
qed

lemma set_sort_values [simp]: "set (sort_values g) = set g"
  unfolding sort_values_def by (induction g) auto

lemma sorted_sort_values: "sorted_wrt sort_le (sort_values g)"
  unfolding sort_values_def by (induction g) (auto intro: sorted_insert_row)

subsection \<open>The dict of the quartiers\<close>

text \<open>No group of \<open>groupby\<close> is empty, so \<open>group.iloc[0]\<close> never raises and the loop returns.\<close>

lemma in_groupby:
  "(name, g) \<in> set (groupby_nom_quartier df) \<longleftrightarrow>
     name \<in> nom_quartier ` set df \<and> g = filter (\<lambda>r. nom_quartier r = name) df"
  by (auto simp: groupby_nom_quartier_def)

lemma groupby_groups_nonempty:
  "(name, g) \<in> set (groupby_nom_quartier df) \<Longrightarrow> g \<noteq> []"
  by (auto simp: groupby_nom_quartier_def filter_empty_conv)

lemma quartiers_loop_Inr:
  "\<forall>(n, g) \<in> set gs. g \<noteq> [] \<Longrightarrow>
     quartiers_loop c gs =
       Inr (map (\<lambda>(n, g). (n, \<lparr>accessible = list_ex dans_le_budget g,
                                  tooltip = map (line_content c) (sort_values g),
                                  info_geo_points = geo_points (hd g)\<rparr>)) gs)"
  by (induction gs) (auto split: list.splits)

lemma quartiers_info_Inr:
  "quartiers_info c df =
     Inr (map (\<lambda>(n, g). (n, \<lparr>accessible = list_ex dans_le_budget g,
                                tooltip = map (line_content c) (sort_values g),
                                info_geo_points = geo_points (hd g)\<rparr>))
            (groupby_nom_quartier (with_loyer_estime c df)))"
  unfolding quartiers_info_def
  by (rule quartiers_loop_Inr) (auto dest: groupby_groups_nonempty)

lemma quartiers_info_returns:
  "quartiers_info c df = Inr (projr (quartiers_info c df))"
  by (simp add: quartiers_info_Inr)

lemma in_quartiers_info:
  assumes "quartiers_info c df = Inr qi" and "(name, i) \<in> set qi"
  shows "name \<in> nom_quartier ` set df"
    and "accessible i =
      list_ex dans_le_budget (filter (\<lambda>r. nom_quartier r = name) (with_loyer_estime c df))"
    and "tooltip i =
      map (line_content c) (sort_values (filter (\<lambda>r. nom_quartier r = name) (with_loyer_estime c df)))"
proof -
  let ?g = "filter (\<lambda>r. nom_quartier r = name) (with_loyer_estime c df)"
  from assms obtain g where g: "(name, g) \<in> set (groupby_nom_quartier (with_loyer_estime c df))"
    and i: "i = \<lparr>accessible = list_ex dans_le_budget g,
                 tooltip = map (line_content c) (sort_values g),
                 info_geo_points = geo_points (hd g)\<rparr>"
    by (auto simp: quartiers_info_Inr)
  from g show "name \<in> nom_quartier ` set df"
    by (auto simp: in_groupby with_loyer_estime_def)
  from g have "g = ?g"
    by (simp add: in_groupby)
  with i show "accessible i = list_ex dans_le_budget ?g"
    and "tooltip i = map (line_content c) (sort_values ?g)"
    by simp_all
qed

subsection \<open>The map\<close>

text \<open>A ring of [longitude, latitude] pairs comes out with each pair swapped.\<close>

lemma invert_points_pairs:
  "invert_points (map (\<lambda>(lon, lat). JArr [lon, lat]) ring) = Inr (map (\<lambda>(lon, lat). (lat, lon)) ring)"
  by (induction ring) auto

lemma points_inverted_ring:
  "points_inverted (JArr (JArr (map (\<lambda>(lon, lat). JArr [lon, lat]) ring) # rings)) =
     Inr (map (\<lambda>(lon, lat). (lat, lon)) ring)"
  by (simp add: points_inverted_def invert_points_pairs)

lemma points_inverted_no_ring:
  "points_inverted (JArr []) = Inl IndexError"
  "points_inverted (JNum x) = Inl TypeError"
  "points_inverted (JArr (JNum x # rings)) = Inl TypeError"
  "points_inverted (JArr (JArr (JNum x # pts) # rings)) = Inl TypeError"
  "points_inverted (JArr (JArr (JArr [lon] # pts) # rings)) = Inl IndexError"
  by (simp_all add: points_inverted_def)

text \<open>A quartier whose geometry raises TypeError or IndexError is left out, and the loop goes on.\<close>

lemma add_polygons_skip:
  "points_inverted (info_geo_points i) = Inl TypeError \<or>
   points_inverted (info_geo_points i) = Inl IndexError \<Longrightarrow>
     add_polygons ((quartier, i) # rest) = add_polygons rest"
  by auto

subsection \<open>The messages\<close>

text \<open>
  A file with its header and no rows has no row of 2025 either: \<open>load_data\<close> takes
  the same branch and shows the same warning as for a file of other years.
\<close>

lemma file_without_rows_shows_year_warning:
  "script to_numeric (Csv []) c =
     Inr \<lparr>messages = [Warning_no_data_2025, Error_not_loaded], infos = [], carte = []\<rparr>"
  by (simp add: script_def)

lemma failed_request_shows_request_error:
  "script to_numeric RequestException c =
     Inr \<lparr>messages = [Error_request, Error_not_loaded], infos = [], carte = []\<rparr>"
  by (simp add: script_def)

section \<open>The claims\<close>

text \<open>
  C1, as the program has it. A record whose \<open>geo_shape\<close> does not decode to a dict with
  a \<open>coordinates\<close> entry other than null is dropped by \<open>load_data\<close>: the frame, and with
  it the accessibility of the quartiers and the lines of their popups, is the one of the
  file without such records.
\<close>

theorem undecodable_geometry_row_is_dropped:
  "snd (load_data to_numeric (Csv rows)) =
     snd (load_data to_numeric
       (Csv (filter (\<lambda>r. case geo_shape r of None \<Rightarrow> False
                              | Some x \<Rightarrow> \<not> isna_object (safe_json_load x)) rows)))"
proof -
  let ?P = "\<lambda>r. case geo_shape r of None \<Rightarrow> False | Some x \<Rightarrow> \<not> isna_object (safe_json_load x)"
  have "List.map_filter (clean_row to_numeric) (filter ?P (filter (\<lambda>r. Annee r = 2025) rows)) =
      List.map_filter (clean_row to_numeric) (filter (\<lambda>r. Annee r = 2025) rows)"
    by (rule map_filter_filter) (auto simp: clean_row_def Let_def split: option.splits)
  moreover have "filter ?P (filter (\<lambda>r. Annee r = 2025) rows) =
      filter (\<lambda>r. Annee r = 2025) (filter ?P rows)"
    by (auto intro: filter_cong)
  ultimately show ?thesis
    by (simp only: load_data_frame)
qed

theorem undecodable_geometry_row_is_dropped_witness:
  "snd (load_data to_numeric_decimal
     (Csv [sample_csv_row\<lparr>geo_shape := Some JSONDecodeError\<rparr>,
           sample_csv_row\<lparr>Loyers_de_reference_majores := ''60''\<rparr>])) =
   snd (load_data to_numeric_decimal
     (Csv [sample_csv_row\<lparr>Loyers_de_reference_majores := ''60''\<rparr>]))"
  using undecodable_geometry_row_is_dropped [of to_numeric_decimal
      "[sample_csv_row\<lparr>geo_shape := Some JSONDecodeError\<rparr>,
        sample_csv_row\<lparr>Loyers_de_reference_majores := ''60''\<rparr>]"]
  by (simp add: sample_csv_row_def sample_coordinates_def)

text \<open>
  C1 as stated fails. Odeon has two rows: one within the budget (40 euros per square
  metre, 1200 euros) whose geometry does not decode, one above it (60, 1800 euros).
  The first takes no part: Odeon is not accessible and its popup has one line.
\<close>

theorem undecodable_geometry_row_not_in_accessibility:
  "script to_numeric_decimal
     (Csv [sample_csv_row\<lparr>geo_shape := Some JSONDecodeError\<rparr>,
           sample_csv_row\<lparr>Loyers_de_reference_majores := ''60''\<rparr>]) sample_criteria =
   Inr \<lparr>messages = [],
        infos = [(''Odeon'',
          \<lparr>accessible = False,
           tooltip = [\<lparr>line_nb_pieces = 2, line_epoque_construction = ''1946-1970'',
                      line_loyer_m2 = Finite 60, line_loyer_estime = Finite 1800,
                      check_icon = False\<rparr>],
           info_geo_points = sample_coordinates\<rparr>)],
        carte = [\<lparr>locations = [(JNum (Finite 48), JNum (Finite 2)),
                                (JNum (Finite 48), JNum (Finite 3)),
                                (JNum (Finite 49), JNum (Finite 3))],
                  color = Red, polygon_tooltip = ''Odeon'',
                  popup = [\<lparr>line_nb_pieces = 2, line_epoque_construction = ''1946-1970'',
                            line_loyer_m2 = Finite 60, line_loyer_estime = Finite 1800,
                            check_icon = False\<rparr>]\<rparr>]\<rparr>"
  by code_simp

text \<open>
  C2. In the frame with its estimates, \<open>loyer_estime\<close> of every row is the product of
  the surface and of the rent column that the option selects: \<open>loyer_majore\<close> for the
  raised reference rent, \<open>loyer_ref\<close> for the reference rent, \<open>loyer_minore\<close> for the
  lowered one. The other two columns are not read.
\<close>

theorem loyer_estime_is_selected_rent_times_surface:
  assumes "e \<in> set (with_loyer_estime c (df_filtered c data))"
  shows "loyer_estime e =
     float_mul (case loyer_a_utiliser c of
                  Loyers_de_reference_majores_option \<Rightarrow> loyer_majore e
                | Loyers_de_reference_option \<Rightarrow> loyer_ref e
                | Loyers_de_reference_minores_option \<Rightarrow> loyer_minore e)
       (Finite (of_int (surface c)))"
proof -
  from assms obtain r where "e = estimate c r"
    by (auto simp: with_loyer_estime_def)
  then show ?thesis
    by (cases "loyer_a_utiliser c") (simp_all add: loyer_estime_estimate)
qed

text \<open>The sample row under each option: 40, 30.5 and 20.1 euros per square metre, 30 square metres.\<close>

theorem loyer_estime_is_selected_rent_times_surface_witness:
  "loyer_estime (estimate sample_criteria sample_row) = Finite 1200 \<and>
   loyer_estime (estimate (sample_criteria\<lparr>loyer_a_utiliser := Loyers_de_reference_option\<rparr>) sample_row)
     = Finite 915 \<and>
   loyer_estime (estimate (sample_criteria\<lparr>loyer_a_utiliser := Loyers_de_reference_minores_option\<rparr>) sample_row)
     = Finite 603"
proof -
  have m: "estimate c sample_row \<in> set (with_loyer_estime c (df_filtered c [sample_row]))"
    if "type_loc c = ''meuble''" "epoque_selection c = [''1946-1970'']" for c
    using that by (simp add: with_loyer_estime_def df_filtered_def sample_row_def)
  have "estimate sample_criteria sample_row
      \<in> set (with_loyer_estime sample_criteria (df_filtered sample_criteria [sample_row]))"
    by (rule m) (simp_all add: sample_criteria_def)
  note a = loyer_estime_is_selected_rent_times_surface [OF this]
  have "estimate (sample_criteria\<lparr>loyer_a_utiliser := Loyers_de_reference_option\<rparr>) sample_row
      \<in> set (with_loyer_estime (sample_criteria\<lparr>loyer_a_utiliser := Loyers_de_reference_option\<rparr>)
           (df_filtered (sample_criteria\<lparr>loyer_a_utiliser := Loyers_de_reference_option\<rparr>) [sample_row]))"
    by (rule m) (simp_all add: sample_criteria_def)
  note b = loyer_estime_is_selected_rent_times_surface [OF this]
  have "estimate (sample_criteria\<lparr>loyer_a_utiliser := Loyers_de_reference_minores_option\<rparr>) sample_row
      \<in> set (with_loyer_estime (sample_criteria\<lparr>loyer_a_utiliser := Loyers_de_reference_minores_option\<rparr>)
           (df_filtered (sample_criteria\<lparr>loyer_a_utiliser := Loyers_de_reference_minores_option\<rparr>) [sample_row]))"
    by (rule m) (simp_all add: sample_criteria_def)
  note d = loyer_estime_is_selected_rent_times_surface [OF this]
  from a b d show ?thesis
    by (simp add: sample_criteria_def sample_row_def)
qed

text \<open>
  C3. A quartier of the dict is accessible exactly when one of the filtered rows of
  that quartier has an estimated rent within the budget.
\<close>

theorem accessible_iff_some_row_in_budget:
  assumes "quartiers_info c (df_filtered c data) = Inr qi" and "(name, i) \<in> set qi"
  shows "accessible i \<longleftrightarrow>
     (\<exists>r \<in> set (df_filtered c data). nom_quartier r = name \<and>
        float_le (loyer_estime (estimate c r)) (Finite (of_int (budget c))))"
proof -
  have "accessible i =
      list_ex dans_le_budget (filter (\<lambda>r. nom_quartier r = name) (with_loyer_estime c (df_filtered c data)))"
    using assms by (rule in_quartiers_info)
  then have "accessible i \<longleftrightarrow>
      (\<exists>e \<in> set (with_loyer_estime c (df_filtered c data)). nom_quartier e = name \<and> dans_le_budget e)"
    by (auto simp: list_ex_iff)
  also have "\<dots> \<longleftrightarrow> (\<exists>r \<in> set (df_filtered c data). nom_quartier r = name \<and> dans_le_budget (estimate c r))"
    by (auto simp: with_loyer_estime_def)
  finally show ?thesis by (simp add: dans_le_budget_estimate)
qed

text \<open>
  Odeon with one row within the budget (1200 euros) and one above; then with the
  first raised to 55 euros per square metre (1650 euros).
\<close>

theorem accessible_iff_some_row_in_budget_witness:
  "accessible (snd (hd (projr (quartiers_info sample_criteria
      (df_filtered sample_criteria [sample_row, sample_row\<lparr>loyer_majore := Finite 60\<rparr>]))))) \<and>
   \<not> accessible (snd (hd (projr (quartiers_info sample_criteria
      (df_filtered sample_criteria [sample_row\<lparr>loyer_majore := Finite 55\<rparr>,
                                    sample_row\<lparr>loyer_majore := Finite 60\<rparr>])))))"
proof -
  let ?d1 = "[sample_row, sample_row\<lparr>loyer_majore := Finite 60\<rparr>]"
  let ?d2 = "[sample_row\<lparr>loyer_majore := Finite 55\<rparr>, sample_row\<lparr>loyer_majore := Finite 60\<rparr>]"
  let ?q1 = "projr (quartiers_info sample_criteria (df_filtered sample_criteria ?d1))"
  let ?q2 = "projr (quartiers_info sample_criteria (df_filtered sample_criteria ?d2))"
  have f1: "df_filtered sample_criteria ?d1 = ?d1" and f2: "df_filtered sample_criteria ?d2 = ?d2"
    by (simp_all add: df_filtered_def sample_criteria_def sample_row_def)
  have q: "quartiers_info sample_criteria df = Inr (projr (quartiers_info sample_criteria df))" for df
    by (rule quartiers_info_returns)
  have m1: "(''Odeon'', snd (hd ?q1)) \<in> set ?q1" and m2: "(''Odeon'', snd (hd ?q2)) \<in> set ?q2"
    by code_simp+
  have "accessible (snd (hd ?q1))"
    using accessible_iff_some_row_in_budget [OF q m1]
    by (simp add: f1 loyer_estime_estimate) (simp add: sample_criteria_def sample_row_def)
  moreover have "\<not> accessible (snd (hd ?q2))"
    using accessible_iff_some_row_in_budget [OF q m2]
    by (simp add: f2 loyer_estime_estimate) (simp add: sample_criteria_def sample_row_def)
  ultimately show ?thesis by blast
qed

text \<open>
  C4. In every popup built from the frame of \<open>load_data\<close> with a positive surface,
  the lines are in non-decreasing order of \<open>nb_pieces\<close>, and lines of equal
  \<open>nb_pieces\<close> in non-decreasing order of the estimated rent.
\<close>

theorem tooltip_lines_sorted:
  assumes "quartiers_info c (df_filtered c (snd (load_data to_numeric input))) = Inr qi"
    and "(name, i) \<in> set qi" and "0 < surface c"
  shows "sorted_wrt (\<lambda>a b. line_nb_pieces a \<le> line_nb_pieces b \<and>
            (line_nb_pieces a = line_nb_pieces b \<longrightarrow>
               float_le (line_loyer_estime a) (line_loyer_estime b))) (tooltip i)"
proof -
  let ?df = "df_filtered c (snd (load_data to_numeric input))"
  let ?g = "filter (\<lambda>r. nom_quartier r = name) (with_loyer_estime c ?df)"
  have i: "tooltip i = map (line_content c) (sort_values ?g)"
    using assms(1,2) by (rule in_quartiers_info)
  have no_nan: "\<not> isna (loyer_estime e)" if "e \<in> set ?g" for e
  proof -
    from that obtain r where r: "r \<in> set (snd (load_data to_numeric input))" and e: "e = estimate c r"
      by (auto simp: with_loyer_estime_def df_filtered_def)
    from r obtain r0 where "clean_row to_numeric r0 = Some r"
      by (blast dest: in_load_data_frame)
    then have "\<not> isna (col_loyer_map (loyer_a_utiliser c) r)"
      by (cases "loyer_a_utiliser c") (simp_all add: clean_row_not_na)
    with assms(3) show ?thesis
      by (simp add: e loyer_estime_estimate float_mul_not_na)
  qed
  have "sorted_wrt sort_le (sort_values ?g)"
    by (rule sorted_sort_values)
  then have "sorted_wrt (\<lambda>a b. nb_pieces a \<le> nb_pieces b \<and>
      (nb_pieces a = nb_pieces b \<longrightarrow> float_le (loyer_estime a) (loyer_estime b))) (sort_values ?g)"
  proof (rule sorted_wrt_mono_rel [rotated])
    fix a b assume "a \<in> set (sort_values ?g)" "b \<in> set (sort_values ?g)" "sort_le a b"
    then show "nb_pieces a \<le> nb_pieces b \<and>
      (nb_pieces a = nb_pieces b \<longrightarrow> float_le (loyer_estime a) (loyer_estime b))"
      using no_nan [of a] no_nan [of b] by (auto simp: sort_le_def na_last_le_float_le)
  qed
  then show ?thesis
    by (simp add: i sorted_wrt_map line_content_def)
qed

text \<open>Three rows of one quartier, out of order in the file.\<close>

theorem tooltip_lines_sorted_witness:
  "sorted_wrt (\<lambda>a b. line_nb_pieces a \<le> line_nb_pieces b \<and>
       (line_nb_pieces a = line_nb_pieces b \<longrightarrow>
          float_le (line_loyer_estime a) (line_loyer_estime b)))
     (tooltip (snd (hd (projr (quartiers_info sample_criteria (df_filtered sample_criteria
        (snd (load_data to_numeric_decimal
           (Csv [sample_csv_row,
                 sample_csv_row\<lparr>Nombre_de_pieces_principales := 1,
                                 Loyers_de_reference_majores := ''50''\<rparr>,
                 sample_csv_row\<lparr>Loyers_de_reference_majores := ''35,5''\<rparr>]))))))))) \<and>
   map (\<lambda>l. (line_nb_pieces l, line_loyer_estime l))
     (tooltip (snd (hd (projr (quartiers_info sample_criteria (df_filtered sample_criteria
        (snd (load_data to_numeric_decimal
           (Csv [sample_csv_row,
                 sample_csv_row\<lparr>Nombre_de_pieces_principales := 1,
                                 Loyers_de_reference_majores := ''50''\<rparr>,
                 sample_csv_row\<lparr>Loyers_de_reference_majores := ''35,5''\<rparr>]))))))))) =
     [(1, Finite 1500), (2, Finite 1065), (2, Finite 1200)]"
proof -
  let ?df = "df_filtered sample_criteria (snd (load_data to_numeric_decimal
           (Csv [sample_csv_row,
                 sample_csv_row\<lparr>Nombre_de_pieces_principales := 1,
                                 Loyers_de_reference_majores := ''50''\<rparr>,
                 sample_csv_row\<lparr>Loyers_de_reference_majores := ''35,5''\<rparr>])))"
  let ?q = "projr (quartiers_info sample_criteria ?df)"
  have q: "quartiers_info sample_criteria ?df = Inr ?q"
    by (rule quartiers_info_returns)
  have m: "(''Odeon'', snd (hd ?q)) \<in> set ?q"
    by code_simp
  have s: "0 < surface sample_criteria"
    by (simp add: sample_criteria_def)
  have "map (\<lambda>l. (line_nb_pieces l, line_loyer_estime l)) (tooltip (snd (hd ?q))) =
      [(1, Finite 1500), (2, Finite 1065), (2, Finite 1200)]"
    by code_simp
  with tooltip_lines_sorted [OF q m s] show ?thesis by blast
qed

text \<open>
  C5. When no row of the file is of the year 2025, \<open>load_data\<close> shows the warning that
  no data was found for 2025. When the body has no content, \<open>pd.read_csv\<close> raises
  and \<open>load_data\<close> shows the message of its last handler instead. Both pages end with
  the closing error of the script and differ in the message before it: the two
  conditions are reported apart.
\<close>

theorem empty_year_reported_apart_from_empty_body:
  assumes "filter (\<lambda>r. Annee r = 2025) rows = []"
  shows "script to_numeric (Csv rows) c =
       Inr \<lparr>messages = [Warning_no_data_2025, Error_not_loaded], infos = [], carte = []\<rparr> \<and>
     script to_numeric OtherException c =
       Inr \<lparr>messages = [Error_unexpected, Error_not_loaded], infos = [], carte = []\<rparr> \<and>
     script to_numeric (Csv rows) c \<noteq> script to_numeric OtherException c"
  using assms by (simp add: script_def)

text \<open>A file whose only row is of 2024, and a body without content.\<close>

theorem empty_year_reported_apart_from_empty_body_witness:
  "script to_numeric_decimal (Csv [sample_csv_row\<lparr>Annee := 2024\<rparr>]) sample_criteria =
       Inr \<lparr>messages = [Warning_no_data_2025, Error_not_loaded], infos = [], carte = []\<rparr> \<and>
   script to_numeric_decimal OtherException sample_criteria =
       Inr \<lparr>messages = [Error_unexpected, Error_not_loaded], infos = [], carte = []\<rparr> \<and>
   script to_numeric_decimal (Csv [sample_csv_row\<lparr>Annee := 2024\<rparr>]) sample_criteria \<noteq>
     script to_numeric_decimal OtherException sample_criteria"
proof -
  have "filter (\<lambda>r. Annee r = 2025) [sample_csv_row\<lparr>Annee := 2024\<rparr>] = []"
    by simp
  then show ?thesis
    by (rule empty_year_reported_apart_from_empty_body)
qed

text \<open>
  C6, as the program has it. For a rent that is not finite and a positive surface, the
  estimate raises nothing: \<open>loyer_estime\<close> is that same value, and the row is within the
  budget exactly when the value is minus infinity.
\<close>

theorem nonfinite_rent_is_estimated:
  assumes "0 < surface c" and "col_loyer_map (loyer_a_utiliser c) r \<in> {PosInf, NegInf, NaN}"
  shows "loyer_estime (estimate c r) = col_loyer_map (loyer_a_utiliser c) r \<and>
     (dans_le_budget (estimate c r) \<longleftrightarrow> col_loyer_map (loyer_a_utiliser c) r = NegInf)"
  using assms by (auto simp: loyer_estime_estimate dans_le_budget_estimate)

theorem nonfinite_rent_is_estimated_witness:
  "loyer_estime (estimate sample_criteria (sample_row\<lparr>loyer_majore := PosInf\<rparr>)) = PosInf \<and>
   \<not> dans_le_budget (estimate sample_criteria (sample_row\<lparr>loyer_majore := PosInf\<rparr>))"
proof -
  have s: "0 < surface sample_criteria"
    by (simp add: sample_criteria_def)
  have n: "col_loyer_map (loyer_a_utiliser sample_criteria) (sample_row\<lparr>loyer_majore := PosInf\<rparr>)
      \<in> {PosInf, NegInf, NaN}"
    by (simp add: sample_criteria_def)
  from nonfinite_rent_is_estimated [OF s n] show ?thesis
    by (simp add: sample_criteria_def)
qed

text \<open>
  C6 as stated fails: with the raised reference rent \<open>inf\<close> in the file, the script
  ends normally and shows the line with an infinite estimate.
\<close>

theorem infinite_rent_raises_no_error:
  "script to_numeric_decimal
     (Csv [sample_csv_row\<lparr>Loyers_de_reference_majores := ''inf''\<rparr>]) sample_criteria =
   Inr \<lparr>messages = [],
        infos = [(''Odeon'',
          \<lparr>accessible = False,
           tooltip = [\<lparr>line_nb_pieces = 2, line_epoque_construction = ''1946-1970'',
                      line_loyer_m2 = PosInf, line_loyer_estime = PosInf,
                      check_icon = False\<rparr>],
           info_geo_points = sample_coordinates\<rparr>)],
        carte = [\<lparr>locations = [(JNum (Finite 48), JNum (Finite 2)),
                                (JNum (Finite 48), JNum (Finite 3)),
                                (JNum (Finite 49), JNum (Finite 3))],
                  color = Red, polygon_tooltip = ''Odeon'',
                  popup = [\<lparr>line_nb_pieces = 2, line_epoque_construction = ''1946-1970'',
                            line_loyer_m2 = PosInf, line_loyer_estime = PosInf,
                            check_icon = False\<rparr>]\<rparr>]\<rparr>"
  by code_simp

text \<open>
  C7, as the program has it. In every row of the frame of \<open>load_data\<close> the three rents
  are not NaN: a row with a rent cell that is no number is dropped.
\<close>

theorem loaded_rents_not_na:
  assumes "r \<in> set (snd (load_data to_numeric input))"
  shows "loyer_ref r \<noteq> NaN \<and> loyer_majore r \<noteq> NaN \<and> loyer_minore r \<noteq> NaN"
proof -
  from assms obtain r0 where "clean_row to_numeric r0 = Some r"
    by (blast dest: in_load_data_frame)
  from clean_row_not_na [OF this] show ?thesis
    by auto
qed

text \<open>Of two rows, the one whose reference rent is no number is dropped.\<close>

theorem loaded_rents_not_na_witness:
  "snd (load_data to_numeric_decimal
     (Csv [sample_csv_row\<lparr>Loyers_de_reference := ''n.d.''\<rparr>, sample_csv_row])) = [sample_row] \<and>
   loyer_ref sample_row \<noteq> NaN \<and> loyer_majore sample_row \<noteq> NaN \<and> loyer_minore sample_row \<noteq> NaN"
proof -
  have f: "snd (load_data to_numeric_decimal
      (Csv [sample_csv_row\<lparr>Loyers_de_reference := ''n.d.''\<rparr>, sample_csv_row])) = [sample_row]"
    by code_simp
  then have "sample_row \<in> set (snd (load_data to_numeric_decimal
      (Csv [sample_csv_row\<lparr>Loyers_de_reference := ''n.d.''\<rparr>, sample_csv_row])))"
    by simp
  from loaded_rents_not_na [OF this] f show ?thesis
    by blast
qed

text \<open>C7 as stated fails: a negative rent and an infinite one stay in the frame.\<close>

theorem negative_and_infinite_rents_are_kept:
  "snd (load_data to_numeric_decimal
     (Csv [sample_csv_row\<lparr>Loyers_de_reference_majores := ''inf'',
                           Loyers_de_reference_minores := ''-3,5''\<rparr>])) =
   [sample_row\<lparr>loyer_majore := PosInf, loyer_minore := Finite (- 7 / 2)\<rparr>]"
  by code_simp

text \<open>
  C8. A quartier all of whose rows are of an era that is not selected, or of another
  type of rental, is not a key of the dict.
\<close>

theorem excluded_quartier_absent:
  assumes "quartiers_info c (df_filtered c data) = Inr qi"
    and "\<forall>r \<in> set data. nom_quartier r = name \<longrightarrow>
           epoque_construction r \<notin> set (epoque_selection c) \<or> type_location r \<noteq> type_loc c"
  shows "name \<notin> fst ` set qi"
proof
  assume "name \<in> fst ` set qi"
  then obtain i where "(name, i) \<in> set qi" by auto
  with assms(1) have "name \<in> nom_quartier ` set (df_filtered c data)"
    by (rule in_quartiers_info)
  with assms(2) show False
    by (auto simp: df_filtered_def)
qed

text \<open>Auteuil has one row, of an era that is not selected; Odeon stays.\<close>

theorem excluded_quartier_absent_witness:
  "''Auteuil'' \<notin> fst ` set (projr (quartiers_info sample_criteria (df_filtered sample_criteria
      [sample_row, sample_row\<lparr>nom_quartier := ''Auteuil'', epoque_construction := ''Avant 1946''\<rparr>]))) \<and>
   map fst (projr (quartiers_info sample_criteria (df_filtered sample_criteria
      [sample_row, sample_row\<lparr>nom_quartier := ''Auteuil'', epoque_construction := ''Avant 1946''\<rparr>])))
     = [''Odeon'']"
proof -
  let ?data = "[sample_row, sample_row\<lparr>nom_quartier := ''Auteuil'', epoque_construction := ''Avant 1946''\<rparr>]"
  let ?q = "projr (quartiers_info sample_criteria (df_filtered sample_criteria ?data))"
  have q: "quartiers_info sample_criteria (df_filtered sample_criteria ?data) = Inr ?q"
    by (simp add: quartiers_info_Inr)
  have h: "\<forall>r \<in> set ?data. nom_quartier r = ''Auteuil'' \<longrightarrow>
      epoque_construction r \<notin> set (epoque_selection sample_criteria) \<or>
      type_location r \<noteq> type_loc sample_criteria"
    by (simp add: sample_criteria_def sample_row_def)
  have "map fst ?q = [''Odeon'']"
    by code_simp
  with excluded_quartier_absent [OF q h] show ?thesis by blast
qed

text \<open>
  C9 fails on the program. A ring whose points are written as objects is kept by
  \<open>load_data\<close> (the text decodes and has its \<open>coordinates\<close>); in the drawing loop
  \<open>point[1]\<close> raises KeyError, which \<open>except (TypeError, IndexError)\<close> does not
  catch, and the script ends with that exception.
\<close>

theorem point_as_object_raises_KeyError:
  "script to_numeric_decimal
     (Csv [sample_csv_row\<lparr>geo_shape := Some (Decoded (JObj
        [(''type'', JStr ''Polygon''),
         (''coordinates'',
            JArr [JArr [JObj [(''lon'', JNum (Finite 2)), (''lat'', JNum (Finite 48))]]])]))\<rparr>])
     sample_criteria = Inl KeyError"
  by code_simp

text \<open>
  C10. The keys of the dict, in its order, are the distinct names of the quartiers of
  the frame in ascending order.
\<close>

theorem quartiers_in_ascending_order:
  assumes "quartiers_info c df = Inr qi"
  shows "map fst qi = sorted_list_of_set (nom_quartier ` set df)"
proof -
  have "map fst qi = sort (remdups (map nom_quartier (with_loyer_estime c df)))"
    using assms by (auto simp: quartiers_info_Inr groupby_nom_quartier_def comp_def)
  also have "map nom_quartier (with_loyer_estime c df) = map nom_quartier df"
    by (simp add: with_loyer_estime_def)
  finally show ?thesis
    using sorted_list_of_set_sort_remdups [of "map nom_quartier df"] by simp
qed

theorem quartiers_in_ascending_order_witness:
  "map fst (projr (quartiers_info sample_criteria
      [sample_row, sample_row\<lparr>nom_quartier := ''Auteuil''\<rparr>, sample_row,
       sample_row\<lparr>nom_quartier := ''Monnaie''\<rparr>])) = [''Auteuil'', ''Monnaie'', ''Odeon'']"
proof -
  let ?df = "[sample_row, sample_row\<lparr>nom_quartier := ''Auteuil''\<rparr>, sample_row,
       sample_row\<lparr>nom_quartier := ''Monnaie''\<rparr>]"
  have q: "quartiers_info sample_criteria ?df = Inr (projr (quartiers_info sample_criteria ?df))"
    by (simp add: quartiers_info_Inr)
  have "sorted_list_of_set (nom_quartier ` set ?df) = [''Auteuil'', ''Monnaie'', ''Odeon'']"
    by code_simp
  with quartiers_in_ascending_order [OF q] show ?thesis by simp
qed

end
